theory Spec2Isabelle
  imports Complex_Main "HOL-Library.Sublist"
begin

section \<open>Fibonacci: the naive recursion and its memoised twin (utils/calculator.py)\<close>

text \<open>
  \<^verbatim>\<open>fibonacci_uncached(n)\<close>: \<^verbatim>\<open>if n <= 1: return n\<close>, otherwise the sum of the two
  recursive calls. Python integers are unbounded, so \<open>n\<close> is an \<open>int\<close>; every
  \<open>n \<le> 1\<close> (negative ones too) is returned unchanged. The model has an unbounded call
  stack: it describes the value the recursion computes.
\<close>

function fibonacci_uncached :: "int \<Rightarrow> int" where
  "fibonacci_uncached n =
     (if n \<le> 1 then n else fibonacci_uncached (n - 1) + fibonacci_uncached (n - 2))"
  by pat_completeness auto
termination
  by (relation "measure nat") auto

declare fibonacci_uncached.simps [simp del]

text \<open>
  \<^verbatim>\<open>@lru_cache(maxsize=128)\<close> keeps a table from argument to result, most recently used
  entry first. A call that finds its argument in the table returns the stored result and
  moves the entry to the front. A call that does not runs the function body and then
  stores the result: at the front, after dropping the least recently used entry when the
  table already holds \<open>maxsize\<close> entries, and not at all when the body's own recursive
  calls have stored the argument in the meantime.
\<close>

type_synonym lru = "(int \<times> int) list"

definition maxsize :: nat where
  "maxsize = 128"

definition lru_lookup :: "lru \<Rightarrow> int \<Rightarrow> (int \<times> lru) option" where
  "lru_lookup c k =
     (case map_of c k of
        None \<Rightarrow> None
      | Some v \<Rightarrow> Some (v, (k, v) # filter (\<lambda>kv. fst kv \<noteq> k) c))"

definition lru_store :: "lru \<Rightarrow> int \<Rightarrow> int \<Rightarrow> lru" where
  "lru_store c k v =
     (if map_of c k \<noteq> None then c
      else if maxsize \<le> length c then (k, v) # butlast c
      else (k, v) # c)"

text \<open>
  \<^verbatim>\<open>fibonacci_cached\<close> is the same body behind the table; its recursive calls go through
  the table too. The table is threaded through the calls, left operand of \<^verbatim>\<open>+\<close> first.
\<close>

function fibonacci_cached :: "int \<Rightarrow> lru \<Rightarrow> int \<times> lru" where
  "fibonacci_cached n c =
     (case lru_lookup c n of
        Some hit \<Rightarrow> hit
      | None \<Rightarrow>
          (if n \<le> 1 then (n, lru_store c n n)
           else (case fibonacci_cached (n - 1) c of
                   (a, c1) \<Rightarrow>
                     (case fibonacci_cached (n - 2) c1 of
                        (b, c2) \<Rightarrow> (a + b, lru_store c2 n (a + b))))))"
  by pat_completeness auto
termination
  by (relation "measure (\<lambda>(n, c). nat n)") auto

declare fibonacci_cached.simps [simp del]

text \<open>The table after a sequence of earlier calls, starting from the empty one.\<close>

definition calls_from_empty :: "int list \<Rightarrow> lru" where
  "calls_from_empty ns = foldl (\<lambda>c m. snd (fibonacci_cached m c)) [] ns"

text \<open>Every entry of the table is a value of the naive recursion.\<close>

definition lru_ok :: "lru \<Rightarrow> bool" where
  "lru_ok c = (\<forall>kv \<in> set c. snd kv = fibonacci_uncached (fst kv))"

section \<open>Text of Python values\<close>

text \<open>
  \<^verbatim>\<open>str(n)\<close> of a Python integer: its decimal digits, with a leading minus sign for a
  negative one. It is what an f-string writes for an integer.
\<close>

definition digit_char :: "nat \<Rightarrow> char" where
  "digit_char d = ''0123456789'' ! d"

fun str_nat :: "nat \<Rightarrow> string" where
  "str_nat n = (if n < 10 then [digit_char n] else str_nat (n div 10) @ [digit_char (n mod 10)])"

declare str_nat.simps [simp del]

definition str_int :: "int \<Rightarrow> string" where
  "str_int i = (if i < 0 then CHR ''-'' # str_nat (nat (- i)) else str_nat (nat i))"









section \<open>The key of the Redis decorator (utils/redis_cache.py)\<close>


text \<open>
  Two kinds of argument values: integers, and instances of a class that defines
  \<^verbatim>\<open>__repr__\<close>. \<open>PyObj i t\<close> is the object number \<open>i\<close>, which shows as the text \<open>t\<close>
  (as a Django model row of \<^verbatim>\<open>caching_demo/products/models.py\<close> shows as
  \<^verbatim>\<open><Product: name>\<close>, whatever its primary key).
\<close>

datatype pyval = PyInt int | PyObj nat string

fun py_repr :: "pyval \<Rightarrow> string" where
  "py_repr (PyInt i) = str_int i"
| "py_repr (PyObj i t) = t"


section \<open>The products module (models/products.py)\<close>

subsection \<open>The database table, the in-process cache, the Redis store, the clock\<close>

text \<open>
  The table \<^verbatim>\<open>products\<close> of \<^verbatim>\<open>models/database.py\<close>: rows in the order of their
  primary key \<^verbatim>\<open>id\<close>. \<^verbatim>\<open>description\<close> may be NULL.
\<close>

record product_row =
  row_id :: int
  row_name :: string
  row_description :: "string option"
  row_price :: real
  row_created_at :: string

type_synonym database = "product_row list"

text \<open>
  What the two read functions return and keep in \<^verbatim>\<open>_cache\<close>: the dictionary of a page
  (\<^verbatim>\<open>products\<close>, \<^verbatim>\<open>pagination\<close>, \<^verbatim>\<open>query_time\<close>) or of one product
  (\<^verbatim>\<open>product\<close>, \<^verbatim>\<open>query_time\<close>). An entry of \<^verbatim>\<open>_cache\<close> is
  \<^verbatim>\<open>{'data': ..., 'timestamp': ...}\<close>.
\<close>

record pagination =
  pg_page :: int
  pg_per_page :: int
  pg_total :: int
  pg_pages :: int

datatype cache_data =
  PageData "(int \<times> string \<times> real) list" pagination real
| ProductData product_row real

record cache_entry =
  entry_data :: cache_data
  entry_timestamp :: real

text \<open>
  A Redis database: each key holds a string and, possibly, the time at which it expires.
  A key whose expiry time has been reached is absent for every command.
\<close>

record redis_entry =
  redis_value :: string
  redis_expiry :: "real option"

type_synonym redis = "string \<rightharpoonup> redis_entry"

text \<open>
  The state the functions of the module read and change: the table, the module's global
  \<^verbatim>\<open>_cache\<close>, the Redis database, and the reading of \<^verbatim>\<open>time.time()\<close>, in seconds.
  In a function that runs alone, time passes in \<^verbatim>\<open>time.sleep\<close> only.
\<close>

record world =
  db :: database
  mem :: "string \<rightharpoonup> cache_entry"
  redis :: redis
  clock :: real


datatype 'e error =
  ProducerError 'e
| TypeError
| JSONDecodeError
| ResponseError

subsection \<open>Redis commands\<close>

definition live :: "real \<Rightarrow> redis_entry \<Rightarrow> bool" where
  "live now e = (case redis_expiry e of None \<Rightarrow> True | Some t \<Rightarrow> now < t)"

text \<open>\<^verbatim>\<open>GET key\<close>: the value, or nothing when the key is absent or has expired.\<close>

definition rget :: "redis \<Rightarrow> real \<Rightarrow> string \<Rightarrow> string option" where
  "rget r now k =
     (case r k of
        None \<Rightarrow> None
      | Some e \<Rightarrow> if live now e then Some (redis_value e) else None)"

text \<open>\<^verbatim>\<open>SETNX key value\<close>: stores the value, with no expiry, when the key is absent, and
  tells whether it did.\<close>

definition rsetnx :: "redis \<Rightarrow> real \<Rightarrow> string \<Rightarrow> string \<Rightarrow> bool \<times> redis" where
  "rsetnx r now k v =
     (if rget r now k = None
      then (True, r(k \<mapsto> \<lparr>redis_value = v, redis_expiry = None\<rparr>))
      else (False, r))"

text \<open>\<^verbatim>\<open>EXPIRE key seconds\<close>: a present key expires \<open>seconds\<close> from now; a timeout that
  is not positive deletes it.\<close>

definition rexpire :: "redis \<Rightarrow> real \<Rightarrow> string \<Rightarrow> int \<Rightarrow> redis" where
  "rexpire r now k seconds =
     (case r k of
        None \<Rightarrow> r
      | Some e \<Rightarrow>
          if \<not> live now e then r
          else if seconds \<le> 0 then r(k := None)
          else r(k \<mapsto> e\<lparr>redis_expiry := Some (now + real_of_int seconds)\<rparr>))"

text \<open>\<^verbatim>\<open>SETEX key seconds value\<close>: stores the value with its expiry; Redis refuses a
  time-to-live that is not positive, and the client raises \<^verbatim>\<open>ResponseError\<close>.\<close>

definition rsetex :: "redis \<Rightarrow> real \<Rightarrow> string \<Rightarrow> int \<Rightarrow> string \<Rightarrow> redis option" where
  "rsetex r now k seconds v =
     (if seconds \<le> 0 then None
      else Some (r(k \<mapsto> \<lparr>redis_value = v, redis_expiry = Some (now + real_of_int seconds)\<rparr>)))"

text \<open>\<^verbatim>\<open>DEL key ...\<close> and \<^verbatim>\<open>KEYS prefix*\<close>.\<close>

definition rdelete :: "redis \<Rightarrow> string \<Rightarrow> redis" where
  "rdelete r k = r(k := None)"



subsection \<open>The read functions behind the in-process cache\<close>







subsection \<open>The write function\<close>



subsection \<open>Reading through Redis behind a lock\<close>

text \<open>
  \<^verbatim>\<open>get_with_stampede_protection(key, ttl, fallback_function, lock_timeout)\<close>, lines 139
  to 165. \<^verbatim>\<open>json.dumps\<close> and \<^verbatim>\<open>json.loads\<close> are the parameters \<open>dumps\<close> and
  \<open>loads\<close>; each may raise. \<open>fallback\<close> is what the call \<^verbatim>\<open>fallback_function()\<close> does:
  it raises \<open>Inl e\<close> or returns \<open>Inr v\<close>. The \<^verbatim>\<open>finally\<close> clause deletes the lock key
  on each way out of the \<^verbatim>\<open>try\<close> block. When \<^verbatim>\<open>SETNX\<close> stores nothing the function
  sleeps a tenth of a second and calls itself; the source gives this no bound, so the
  function is partial: \<open>None\<close> is a call that never returns.
\<close>

partial_function (option) get_with_stampede_protection ::
  "('v \<Rightarrow> string option) \<Rightarrow> (string \<Rightarrow> 'v option) \<Rightarrow> string \<Rightarrow> int \<Rightarrow> ('e + 'v) \<Rightarrow> int
     \<Rightarrow> world \<Rightarrow> (('e error + 'v) \<times> world) option" where
  "get_with_stampede_protection dumps loads key ttl fallback lock_timeout w =
     (case rget (redis w) (clock w) key of
        Some cached_data \<Rightarrow>
          (case loads cached_data of
             None \<Rightarrow> Some (Inl JSONDecodeError, w)
           | Some v \<Rightarrow> Some (Inr v, w))
      | None \<Rightarrow>
          (let lock_key = key @ '':lock'';
               locked = rsetnx (redis w) (clock w) lock_key ''locked''
           in if fst locked then
                (let r1 = rexpire (snd locked) (clock w) lock_key lock_timeout
                 in case fallback of
                      Inl e \<Rightarrow> Some (Inl (ProducerError e), w\<lparr>redis := rdelete r1 lock_key\<rparr>)
                    | Inr fresh_data \<Rightarrow>
                        (case dumps fresh_data of
                           None \<Rightarrow> Some (Inl TypeError, w\<lparr>redis := rdelete r1 lock_key\<rparr>)
                         | Some text \<Rightarrow>
                             (case rsetex r1 (clock w) key ttl text of
                                None \<Rightarrow>
                                  Some (Inl ResponseError, w\<lparr>redis := rdelete r1 lock_key\<rparr>)
                              | Some r2 \<Rightarrow>
                                  Some (Inr fresh_data, w\<lparr>redis := rdelete r2 lock_key\<rparr>))))
              else get_with_stampede_protection dumps loads key ttl fallback lock_timeout
                     (w\<lparr>clock := clock w + 1 / 10\<rparr>)))"

subsection \<open>The same function, one Redis command at a time\<close>

text \<open>
  Several callers share one Redis database, and what one caller does between two of its
  commands is invisible to the others. So a caller is a small machine whose steps are the
  commands of the function, in the order of the source:
  \<^item> \<open>Start\<close>: about to run \<^verbatim>\<open>cache.get(key)\<close> (line 144);
  \<^item> \<open>Missed\<close>: the key was absent; about to run \<^verbatim>\<open>cache.setnx(lock_key, "locked")\<close>
    (line 150);
  \<^item> \<open>Acquired\<close>: \<^verbatim>\<open>setnx\<close> stored the lock; about to run \<^verbatim>\<open>cache.expire\<close> (line 152);
  \<^item> \<open>Holding\<close>: about to call \<^verbatim>\<open>fallback_function()\<close> (line 156);
  \<^item> \<open>Computed v\<close>: about to run \<^verbatim>\<open>cache.setex(key, ttl, json.dumps(v))\<close> (line 157);
  \<^item> \<open>Stored v\<close>, \<open>Raised e\<close>: in the \<^verbatim>\<open>finally\<close> clause, about to delete the lock key
    (line 161), then to return \<open>v\<close> or to let the exception \<open>e\<close> go on;
  \<^item> \<open>Waiting\<close>: \<^verbatim>\<open>setnx\<close> stored nothing; about to sleep (line 164);
  \<^item> \<open>Sleeping t\<close>: asleep until the clock reads \<open>t\<close>, then starting again (line 165);
  \<^item> \<open>Returned v\<close>, \<open>Failed e\<close>: the call is over.
  \<open>calls\<close> counts the calls of \<^verbatim>\<open>fallback_function\<close>.
\<close>

datatype ('e, 'v) pc =
  Start
| Missed
| Acquired
| Holding
| Computed 'v
| Stored 'v
| Raised "'e error"
| Waiting
| Sleeping real
| Returned 'v
| Failed "'e error"

record ('e, 'v) config =
  shared :: world
  calls :: nat
  callers :: "('e, 'v) pc list"

fun caller_step ::
  "('v \<Rightarrow> string option) \<Rightarrow> (string \<Rightarrow> 'v option) \<Rightarrow> string \<Rightarrow> int \<Rightarrow> ('e + 'v) \<Rightarrow> int
     \<Rightarrow> ('e, 'v) pc \<Rightarrow> world \<times> nat \<Rightarrow> ('e, 'v) pc \<times> world \<times> nat" where
  "caller_step dumps loads key ttl fallback lock_timeout Start (w, n) =
     (case rget (redis w) (clock w) key of
        Some cached_data \<Rightarrow>
          (case loads cached_data of
             None \<Rightarrow> (Failed JSONDecodeError, w, n)
           | Some v \<Rightarrow> (Returned v, w, n))
      | None \<Rightarrow> (Missed, w, n))"
| "caller_step dumps loads key ttl fallback lock_timeout Missed (w, n) =
     (let locked = rsetnx (redis w) (clock w) (key @ '':lock'') ''locked''
      in if fst locked then (Acquired, w\<lparr>redis := snd locked\<rparr>, n) else (Waiting, w, n))"
| "caller_step dumps loads key ttl fallback lock_timeout Acquired (w, n) =
     (Holding, w\<lparr>redis := rexpire (redis w) (clock w) (key @ '':lock'') lock_timeout\<rparr>, n)"
| "caller_step dumps loads key ttl fallback lock_timeout Holding (w, n) =
     (case fallback of
        Inl e \<Rightarrow> (Raised (ProducerError e), w, Suc n)
      | Inr fresh_data \<Rightarrow> (Computed fresh_data, w, Suc n))"
| "caller_step dumps loads key ttl fallback lock_timeout (Computed fresh_data) (w, n) =
     (case dumps fresh_data of
        None \<Rightarrow> (Raised TypeError, w, n)
      | Some text \<Rightarrow>
          (case rsetex (redis w) (clock w) key ttl text of
             None \<Rightarrow> (Raised ResponseError, w, n)
           | Some r \<Rightarrow> (Stored fresh_data, w\<lparr>redis := r\<rparr>, n)))"
| "caller_step dumps loads key ttl fallback lock_timeout (Stored fresh_data) (w, n) =
     (Returned fresh_data, w\<lparr>redis := rdelete (redis w) (key @ '':lock'')\<rparr>, n)"
| "caller_step dumps loads key ttl fallback lock_timeout (Raised e) (w, n) =
     (Failed e, w\<lparr>redis := rdelete (redis w) (key @ '':lock'')\<rparr>, n)"
| "caller_step dumps loads key ttl fallback lock_timeout Waiting (w, n) =
     (Sleeping (clock w + 1 / 10), w, n)"
| "caller_step dumps loads key ttl fallback lock_timeout (Sleeping t) (w, n) =
     (if t \<le> clock w then (Start, w, n) else (Sleeping t, w, n))"
| "caller_step dumps loads key ttl fallback lock_timeout (Returned v) (w, n) = (Returned v, w, n)"
| "caller_step dumps loads key ttl fallback lock_timeout (Failed e) (w, n) = (Failed e, w, n)"

text \<open>
  A run of several callers is a list of events: \<open>Run i\<close> lets caller \<open>i\<close> take its next
  step, \<open>Tick d\<close> lets \<open>d\<close> seconds pass. A caller that is never run again has crashed.
\<close>

datatype event = Run nat | Tick real

fun exec_event ::
  "('v \<Rightarrow> string option) \<Rightarrow> (string \<Rightarrow> 'v option) \<Rightarrow> string \<Rightarrow> int \<Rightarrow> ('e + 'v) \<Rightarrow> int
     \<Rightarrow> ('e, 'v) config \<Rightarrow> event \<Rightarrow> ('e, 'v) config" where
  "exec_event dumps loads key ttl fallback lock_timeout c (Run i) =
     (if i < length (callers c) then
        (case caller_step dumps loads key ttl fallback lock_timeout (callers c ! i)
                (shared c, calls c) of
           (p, w, n) \<Rightarrow> \<lparr>shared = w, calls = n, callers = (callers c)[i := p]\<rparr>)
      else c)"
| "exec_event dumps loads key ttl fallback lock_timeout c (Tick d) =
     (if 0 \<le> d then c\<lparr>shared := (shared c)\<lparr>clock := clock (shared c) + d\<rparr>\<rparr> else c)"

definition exec ::
  "('v \<Rightarrow> string option) \<Rightarrow> (string \<Rightarrow> 'v option) \<Rightarrow> string \<Rightarrow> int \<Rightarrow> ('e + 'v) \<Rightarrow> int
     \<Rightarrow> event list \<Rightarrow> ('e, 'v) config \<Rightarrow> ('e, 'v) config" where
  "exec dumps loads key ttl fallback lock_timeout events c =
     foldl (exec_event dumps loads key ttl fallback lock_timeout) c events"

text \<open>All callers at the first line of the function, nothing computed yet.\<close>

definition initial :: "world \<Rightarrow> nat \<Rightarrow> ('e, 'v) config" where
  "initial w n = \<lparr>shared = w, calls = 0, callers = replicate n Start\<rparr>"

subsection \<open>The states the module can be in\<close>



section \<open>Auxiliary definitions for the proofs and examples\<close>

text \<open>
  What a caller that holds the lock ends with: the exception of its function, or of
  \<^verbatim>\<open>json.dumps\<close>, or of \<^verbatim>\<open>SETEX\<close>, or the value of its function.
\<close>

definition producer_outcome :: "('v \<Rightarrow> string option) \<Rightarrow> int \<Rightarrow> ('e + 'v) \<Rightarrow> 'e error + 'v" where
  "producer_outcome dumps ttl fallback =
     (case fallback of
        Inl e \<Rightarrow> Inl (ProducerError e)
      | Inr v \<Rightarrow>
          (case dumps v of
             None \<Rightarrow> Inl TypeError
           | Some text \<Rightarrow> if ttl \<le> 0 then Inl ResponseError else Inr v))"



text \<open>A product, and a state with this one product in the table, nothing cached, at time zero.\<close>

definition product_one :: product_row where
  "product_one = \<lparr>row_id = 1, row_name = ''Product 1'',
                   row_description = Some ''Description for product 1'',
                   row_price = 1099 / 100, row_created_at = ''2024-01-01 00:00:00''\<rparr>"

definition shop :: world where
  "shop = \<lparr>db = [product_one], mem = Map.empty, redis = Map.empty, clock = 0\<rparr>"



text \<open>A function of the caller that raises.\<close>

definition raising :: "string + string" where
  "raising = Inl ''database is locked''"




section \<open>Properties of the Fibonacci functions\<close>

subsection \<open>The memo table only ever holds correct entries\<close>

lemma lru_ok_Nil: "lru_ok []"
  by (simp add: lru_ok_def)

lemma lru_ok_map_of: "lru_ok c \<Longrightarrow> map_of c k = Some v \<Longrightarrow> v = fibonacci_uncached k"
proof -
  assume ok: "lru_ok c" and m: "map_of c k = Some v"
  from m have "(k, v) \<in> set c" by (rule map_of_SomeD)
  with ok show ?thesis by (fastforce simp: lru_ok_def)
qed

lemma lru_ok_lookup:
  assumes "lru_ok c" and "lru_lookup c k = Some (v, c')"
  shows "v = fibonacci_uncached k \<and> lru_ok c'"
proof -
  from assms(2) obtain w where w: "map_of c k = Some w"
    and v: "v = w" and c': "c' = (k, w) # filter (\<lambda>kv. fst kv \<noteq> k) c"
    by (auto simp: lru_lookup_def split: option.splits)
  have "w = fibonacci_uncached k"
    using assms(1) w by (rule lru_ok_map_of)
  moreover have "lru_ok (filter (\<lambda>kv. fst kv \<noteq> k) c)"
    using assms(1) by (simp add: lru_ok_def)
  ultimately show ?thesis
    using v c' by (simp add: lru_ok_def)
qed

lemma lru_ok_butlast: "lru_ok c \<Longrightarrow> lru_ok (butlast c)"
  by (auto simp: lru_ok_def dest: in_set_butlastD)

lemma lru_ok_store: "lru_ok c \<Longrightarrow> v = fibonacci_uncached k \<Longrightarrow> lru_ok (lru_store c k v)"
  using lru_ok_butlast [of c] by (simp add: lru_store_def lru_ok_def)

lemma fibonacci_cached_sound:
  "lru_ok c \<Longrightarrow>
     fst (fibonacci_cached n c) = fibonacci_uncached n \<and> lru_ok (snd (fibonacci_cached n c))"
proof (induction n c rule: fibonacci_cached.induct)
  case (1 n c)
  show ?case
  proof (cases "lru_lookup c n")
    case (Some hit)
    obtain v c' where hit: "hit = (v, c')" by (cases hit)
    from lru_ok_lookup [OF "1.prems"] Some hit
    have "v = fibonacci_uncached n \<and> lru_ok c'" by simp
    then show ?thesis
      using Some hit by (simp add: fibonacci_cached.simps [of n c])
  next
    case None
    show ?thesis
    proof (cases "n \<le> 1")
      case True
      have "fibonacci_uncached n = n"
        using True by (simp add: fibonacci_uncached.simps [of n])
      then show ?thesis
        using None True "1.prems"
        by (simp add: fibonacci_cached.simps [of n c] lru_ok_store)
    next
      case False
      obtain a c1 where r1: "fibonacci_cached (n - 1) c = (a, c1)"
        by (cases "fibonacci_cached (n - 1) c")
      obtain b c2 where r2: "fibonacci_cached (n - 2) c1 = (b, c2)"
        by (cases "fibonacci_cached (n - 2) c1")
      from "1.IH"(1) [OF None False "1.prems"] r1
      have a: "a = fibonacci_uncached (n - 1)" and ok1: "lru_ok c1" by simp_all
      from "1.IH"(2) [OF None False r1 [symmetric] ok1] r2
      have b: "b = fibonacci_uncached (n - 2)" and ok2: "lru_ok c2" by simp_all
      have sum: "a + b = fibonacci_uncached n"
        using False a b by (simp add: fibonacci_uncached.simps [of n])
      have "fibonacci_cached n c = (a + b, lru_store c2 n (a + b))"
        using None False r1 r2 by (simp add: fibonacci_cached.simps [of n c])
      then show ?thesis
        using sum ok2 by (simp add: lru_ok_store)
    qed
  qed
qed

lemma lru_ok_foldl:
  "lru_ok c \<Longrightarrow> lru_ok (foldl (\<lambda>c m. snd (fibonacci_cached m c)) c ns)"
  by (induction ns arbitrary: c) (simp_all add: fibonacci_cached_sound)

lemma lru_ok_calls_from_empty: "lru_ok (calls_from_empty ns)"
  unfolding calls_from_empty_def by (rule lru_ok_foldl [OF lru_ok_Nil])

text \<open>
  Claim C9. For every natural number \<open>n\<close>, \<^verbatim>\<open>fibonacci_cached(n)\<close> equals
  \<^verbatim>\<open>fibonacci_uncached(n)\<close>: whatever calls \<open>ns\<close> were made before (so whatever the
  memo table holds, and whatever it has evicted), the memoised function returns the value
  of the naive doubly recursive one.
\<close>

theorem fibonacci_cached_eq_uncached:
  "0 \<le> n \<Longrightarrow> fst (fibonacci_cached n (calls_from_empty ns)) = fibonacci_uncached n"
  using fibonacci_cached_sound [OF lru_ok_calls_from_empty] by simp

theorem fibonacci_cached_eq_uncached_witness:
  "(0::int) \<le> 7 \<and> fst (fibonacci_cached 7 (calls_from_empty [3, 9])) = 13
     \<and> fibonacci_uncached 7 = 13"
proof -
  have u: "fibonacci_uncached 7 = 13"
    by (simp add: fibonacci_uncached.simps)
  show ?thesis
    using fibonacci_cached_eq_uncached [of 7 "[3, 9]"] u by simp
qed

section \<open>Properties of the text of integers and of the cache keys\<close>









section \<open>Properties of the in-process cache\<close>

subsection \<open>Cached products have rows\<close>













subsection \<open>How long an entry of the in-process cache is served\<close>







section \<open>Properties of the write path\<close>













section \<open>Properties of the read path behind the lock\<close>

subsection \<open>The three ways through the function\<close>

lemma key_not_lock_key: "key \<noteq> key @ '':lock''"
  by simp


lemma rsetnx_free:
  "rget r now k = None \<Longrightarrow>
     rsetnx r now k v = (True, r(k \<mapsto> \<lparr>redis_value = v, redis_expiry = None\<rparr>))"
  by (simp add: rsetnx_def)

lemma rsetnx_held: "rget r now k \<noteq> None \<Longrightarrow> rsetnx r now k v = (False, r)"
  by (simp add: rsetnx_def)

lemma rexpire_other: "k' \<noteq> k \<Longrightarrow> rexpire r now k seconds k' = r k'"
  by (simp add: rexpire_def split: option.splits)


lemma gwsp_acquire:
  assumes "rget (redis w) (clock w) key = None"
    and "rget (redis w) (clock w) (key @ '':lock'') = None"
  shows "\<exists>w'. get_with_stampede_protection dumps loads key ttl fallback lock_timeout w =
           Some (producer_outcome dumps ttl fallback, w')
         \<and> clock w' = clock w \<and> redis w' (key @ '':lock'') = None
         \<and> (\<forall>e. fallback = Inl e \<longrightarrow> redis w' key = redis w key)"
  by (subst get_with_stampede_protection.simps)
     (auto simp: assms rsetnx_free [OF assms(2)] producer_outcome_def Let_def rdelete_def
        rsetex_def rexpire_other split: sum.splits option.splits)





lemma gwsp_hit:
  assumes "rget (redis w) (clock w) key = Some cached_data"
  shows "get_with_stampede_protection dumps loads key ttl fallback lock_timeout w =
           Some (case loads cached_data of None \<Rightarrow> Inl JSONDecodeError | Some v \<Rightarrow> Inr v, w)"
  by (subst get_with_stampede_protection.simps) (simp add: assms split: option.splits)

lemma gwsp_producer_error:
  assumes "get_with_stampede_protection dumps loads key ttl fallback lock_timeout w = Some y"
  shows "\<forall>e w'. y = (Inl (ProducerError e), w') \<longrightarrow>
           fallback = Inl e \<and> redis w' key = redis w key
           \<and> rget (redis w') (clock w') key = None \<and> redis w' (key @ '':lock'') = None"
proof (rule get_with_stampede_protection.raw_induct
    [where P = "\<lambda>dumps loads key ttl fallback lock_timeout w y.
        \<forall>e w'. y = (Inl (ProducerError e), w') \<longrightarrow>
           fallback = Inl e \<and> redis w' key = redis w key
           \<and> rget (redis w') (clock w') key = None \<and> redis w' (key @ '':lock'') = None",
      OF _ assms], goal_cases)
  case (1 gwsp dumps loads key ttl fallback lock_timeout w y)
  show ?case
  proof (cases "rget (redis w) (clock w) key")
    case (Some cached_data)
    with 1(2) show ?thesis by (auto split: option.splits)
  next
    case None
    show ?thesis
    proof (cases "rget (redis w) (clock w) (key @ '':lock'') = None")
      case True
      have k: "rget (rdelete (rexpire ((redis w)(key @ '':lock'' \<mapsto>
                 \<lparr>redis_value = ''locked'', redis_expiry = None\<rparr>)) (clock w) (key @ '':lock'')
                 lock_timeout) (key @ '':lock'')) (clock w) key = None"
        using None by (simp add: rget_def rdelete_def rexpire_other)
      from 1(2) None True show ?thesis
        using k
        by (auto simp: rsetnx_free Let_def rdelete_def rexpire_other
            split: sum.splits option.splits)
    next
      case False
      with 1(2) None have "gwsp dumps loads key ttl fallback lock_timeout
          (w\<lparr>clock := clock w + 1 / 10\<rparr>) = Some y"
        by (simp add: rsetnx_held)
      from 1(1) [OF this] show ?thesis by simp
    qed
  qed
qed

subsection \<open>A function that raises\<close>

text \<open>
  Claim C3. When \<^verbatim>\<open>fallback_function\<close> raises, the caller that has acquired the lock
  stores nothing under the key and deletes the lock key before the exception goes on to
  its own caller. First part: a call that finds neither the value nor a lock acquires the
  lock and returns with the exception of the function. Second part: whenever a call ends
  with that exception, also after waiting, the entry under the key is what it was, no
  value is readable under the key, and no lock entry is left.
\<close>

theorem producer_failure_leaves_no_entry:
  "(rget (redis w) (clock w) key = None \<and> rget (redis w) (clock w) (key @ '':lock'') = None \<longrightarrow>
      (\<exists>w'. get_with_stampede_protection dumps loads key ttl (Inl e) lock_timeout w
                = Some (Inl (ProducerError e), w')))
   \<and> (\<forall>e' w'. get_with_stampede_protection dumps loads key ttl (Inl e) lock_timeout w
                = Some (Inl (ProducerError e'), w') \<longrightarrow>
         e' = e \<and> redis w' key = redis w key
         \<and> rget (redis w') (clock w') key = None \<and> redis w' (key @ '':lock'') = None)"
proof (intro conjI impI allI)
  assume "rget (redis w) (clock w) key = None \<and> rget (redis w) (clock w) (key @ '':lock'') = None"
  then obtain w' where
    "get_with_stampede_protection dumps loads key ttl (Inl e) lock_timeout w
       = Some (producer_outcome dumps ttl (Inl e), w')"
    using gwsp_acquire [of w key dumps loads ttl "Inl e" lock_timeout] by blast
  then show "\<exists>w'. get_with_stampede_protection dumps loads key ttl (Inl e) lock_timeout w
                = Some (Inl (ProducerError e), w')"
    by (auto simp: producer_outcome_def)
next
  fix e' w'
  assume r: "get_with_stampede_protection dumps loads key ttl (Inl e) lock_timeout w
                = Some (Inl (ProducerError e'), w')"
  from gwsp_producer_error [OF r]
  have *: "(Inl e :: 'a + 'b) = Inl e' \<and> redis w' key = redis w key
           \<and> rget (redis w') (clock w') key = None \<and> redis w' (key @ '':lock'') = None"
    by blast
  from * show "e' = e" by simp
  from * show "redis w' key = redis w key" by simp
  from * show "rget (redis w') (clock w') key = None" by simp
  from * show "redis w' (key @ '':lock'') = None" by simp
qed

theorem producer_failure_witness:
  "rget (redis shop) (clock shop) ''product_1'' = None
   \<and> rget (redis shop) (clock shop) (''product_1'' @ '':lock'') = None
   \<and> get_with_stampede_protection Some Some ''product_1'' 60 raising 5 shop
       = Some (Inl (ProducerError ''database is locked''), shop)
   \<and> redis shop ''product_1'' = None \<and> redis shop ''product_1:lock'' = None"
proof -
  have m: "rget (redis shop) (clock shop) ''product_1'' = None"
    and f: "rget (redis shop) (clock shop) (''product_1'' @ '':lock'') = None"
    and n: "redis shop = Map.empty"
    by (simp_all add: shop_def rget_def)
  have run: "get_with_stampede_protection Some Some ''product_1'' 60 raising 5 shop
       = Some (Inl (ProducerError ''database is locked''), shop)"
    by (subst get_with_stampede_protection.simps)
       (simp add: raising_def shop_def rget_def rsetnx_def rexpire_def rdelete_def live_def Let_def)
  from producer_failure_leaves_no_entry
    [of shop "''product_1''" Some Some 60 "''database is locked''" 5] m f run n
  show ?thesis
    by (simp add: raising_def)
qed

subsection \<open>Waiting for the lock\<close>






end
